theory Spec2Isabelle
  imports Main "HOL-Library.Sublist"
begin

section \<open>Values and documents\<close>

text \<open>
  The program is a single Python module, \<^verbatim>\<open>Main.py\<close>. Python strings are modelled as
  \<^typ>\<open>string\<close>, one \<^typ>\<open>char\<close> per Python character, so that \<^const>\<open>length\<close> is
  Python's \<^verbatim>\<open>len\<close>. Python integers are \<^typ>\<open>int\<close>.

  \<^verbatim>\<open>create_vectorstore\<close> inspects its first two arguments dynamically
  (\<^verbatim>\<open>isinstance(x, dict)\<close>, \<^verbatim>\<open>isinstance(x, str)\<close>, truthiness), so they are values of a small
  universe of Python values. A dictionary is kept as the list of its items in insertion
  order; since the only use of the values is \<^verbatim>\<open>f"{key}: {value}"\<close>, each value is kept as
  the text \<^verbatim>\<open>str(value)\<close>.
\<close>

datatype pyval = PyNone | PyStr string | PyDict "(string \<times> string) list"

fun truthy :: "pyval \<Rightarrow> bool" where
  "truthy PyNone = False"
| "truthy (PyStr s) = (s \<noteq> [])"
| "truthy (PyDict d) = (d \<noteq> [])"

fun isinstance_dict :: "pyval \<Rightarrow> bool" where
  "isinstance_dict (PyDict d) = True"
| "isinstance_dict v = False"

fun isinstance_str :: "pyval \<Rightarrow> bool" where
  "isinstance_str (PyStr s) = True"
| "isinstance_str v = False"

fun dict_items :: "pyval \<Rightarrow> (string \<times> string) list" where
  "dict_items (PyDict d) = d"
| "dict_items v = []"

fun str_value :: "pyval \<Rightarrow> string" where
  "str_value (PyStr s) = s"
| "str_value v = []"

text \<open>Metadata values are strings or integers (\<^verbatim>\<open>"chunk": i\<close>).\<close>

datatype mval = MStr string | MInt int

record document =
  page_content :: string
  metadata :: "(string \<times> mval) list"

definition source_of :: "document \<Rightarrow> mval option" where
  "source_of d = map_of (metadata d) ''source''"

definition type_of :: "document \<Rightarrow> mval option" where
  "type_of d = map_of (metadata d) ''type''"

text \<open>\<^verbatim>\<open>sep.join(xs)\<close> and \<^verbatim>\<open>str(n)\<close> for an integer.\<close>

fun join :: "string \<Rightarrow> string list \<Rightarrow> string" where
  "join sep [] = []"
| "join sep [x] = x"
| "join sep (x # y # ys) = x @ sep @ join sep (y # ys)"

definition digit_char :: "nat \<Rightarrow> char" where
  "digit_char d = char_of (48 + d)"

fun str_nat :: "nat \<Rightarrow> string" where
  "str_nat n = (if n < 10 then [digit_char n] else str_nat (n div 10) @ [digit_char (n mod 10)])"

definition str_int :: "int \<Rightarrow> string" where
  "str_int i = (if i < 0 then CHR ''-'' # str_nat (nat (- i)) else str_nat (nat i))"

section \<open>The extracted source records\<close>

text \<open>
  The dictionaries returned by \<^verbatim>\<open>extract_github_info\<close> and \<^verbatim>\<open>extract_linkedin_info\<close>,
  with the fields that \<^verbatim>\<open>create_vectorstore\<close> reads. Field names carry a prefix where
  two dictionaries use the same key.
\<close>

record gh_profile =
  gh_username :: string
  gh_name :: string
  gh_bio :: string
  gh_location :: string
  gh_company :: string
  gh_followers :: int
  gh_public_repos :: int

record gh_repo =
  repo_name :: string
  repo_description :: string
  repo_url :: string
  repo_language :: string
  repo_stars :: int
  repo_last_updated :: string
  repo_readme :: string

record github_data =
  gh_profile :: gh_profile
  gh_repositories :: "gh_repo list"

record li_profile =
  li_summary :: string
  li_headline :: string
  li_location :: string
  li_industry :: string

record li_experience =
  exp_title :: string
  exp_company :: string
  exp_location :: string
  exp_dates :: string
  exp_description :: string

record li_education =
  edu_schoolName :: string
  edu_degreeName :: string
  edu_fieldOfStudy :: string
  edu_dates :: string
  edu_description :: string

record linkedin_data =
  li_profile :: li_profile
  li_experience :: "li_experience list"
  li_education :: "li_education list"
  li_skills :: "string list"

section \<open>Vector store construction\<close>

text \<open>
  \<^verbatim>\<open>RecursiveCharacterTextSplitter\<close> comes from the langchain library and is not part of
  the repository. \<^verbatim>\<open>create_vectorstore\<close> is therefore parametrised by the splitter: a
  function from chunk size, chunk overlap and text to the list of pieces.
\<close>

type_synonym splitter = "nat \<Rightarrow> nat \<Rightarrow> string \<Rightarrow> string list"

definition text_splitter_large :: "splitter \<Rightarrow> string \<Rightarrow> string list" where
  "text_splitter_large split_text = split_text 1500 200"

definition text_splitter_medium :: "splitter \<Rightarrow> string \<Rightarrow> string list" where
  "text_splitter_medium split_text = split_text 1000 150"

definition resume_document :: "nat \<times> string \<Rightarrow> document" where
  "resume_document ic =
     \<lparr>page_content = snd ic,
      metadata = [(''source'', MStr ''resume''), (''chunk'', MInt (int (fst ic)))]\<rparr>"

definition resume_data_str :: "pyval \<Rightarrow> string" where
  "resume_data_str resume_data =
     join [CHR 0x0A] (map (\<lambda>(key, val). key @ '': '' @ val) (dict_items resume_data))"

definition resume_data_documents :: "splitter \<Rightarrow> pyval \<Rightarrow> document list" where
  "resume_data_documents split_text resume_data =
     (if truthy resume_data \<and> isinstance_dict resume_data
      then map resume_document
             (enumerate 0 (text_splitter_medium split_text (resume_data_str resume_data)))
      else [])"

definition resume_text_documents :: "splitter \<Rightarrow> pyval \<Rightarrow> document list" where
  "resume_text_documents split_text resume_text =
     (if truthy resume_text \<and> isinstance_str resume_text
      then map resume_document
             (enumerate 0 (text_splitter_medium split_text (str_value resume_text)))
      else [])"

definition readme_not_found :: string where
  "readme_not_found = ''README not found or could not be decoded.''"

definition readme_label :: "string \<Rightarrow> string" where
  "readme_label name = ''GitHub README ('' @ name @ ''): ''"

definition readme_document :: "gh_repo \<Rightarrow> nat \<times> string \<Rightarrow> document" where
  "readme_document repo ic =
     \<lparr>page_content = readme_label (repo_name repo) @ snd ic,
      metadata = [(''source'', MStr ''github''), (''type'', MStr ''readme''),
                  (''repo_name'', MStr (repo_name repo)), (''chunk'', MInt (int (fst ic))),
                  (''url'', MStr (repo_url repo))]\<rparr>"

definition repo_summary_document :: "gh_repo \<Rightarrow> document" where
  "repo_summary_document repo =
     \<lparr>page_content =
        ''GitHub Repo: '' @ repo_name repo @ [CHR 0x0A] @
        ''Language: '' @ repo_language repo @ [CHR 0x0A] @
        ''Stars: '' @ str_int (repo_stars repo) @ [CHR 0x0A] @
        ''Description: '' @ repo_description repo @ [CHR 0x0A] @
        ''Last Updated: '' @ repo_last_updated repo,
      metadata = [(''source'', MStr ''github''), (''type'', MStr ''repo_summary''),
                  (''repo_name'', MStr (repo_name repo)), (''url'', MStr (repo_url repo))]\<rparr>"

definition repo_documents :: "splitter \<Rightarrow> gh_repo \<Rightarrow> document list" where
  "repo_documents split_text repo =
     repo_summary_document repo #
     (if repo_readme repo \<noteq> [] \<and> repo_readme repo \<noteq> readme_not_found
      then map (readme_document repo)
             (enumerate 0 (text_splitter_large split_text (repo_readme repo)))
      else [])"

definition github_profile_document :: "gh_profile \<Rightarrow> document" where
  "github_profile_document p =
     \<lparr>page_content =
        ''GitHub Profile ('' @ gh_username p @ ''): Name: '' @ gh_name p @
        '', Bio: '' @ gh_bio p @ '', Location: '' @ gh_location p @
        '', Company: '' @ gh_company p @ ''. Followers: '' @ str_int (gh_followers p) @
        '', Public Repos: '' @ str_int (gh_public_repos p) @ ''.'',
      metadata = [(''source'', MStr ''github''), (''type'', MStr ''profile''),
                  (''username'', MStr (gh_username p))]\<rparr>"

definition github_documents :: "splitter \<Rightarrow> github_data option \<Rightarrow> document list" where
  "github_documents split_text github_data =
     (case github_data of
        None \<Rightarrow> []
      | Some g \<Rightarrow> github_profile_document (gh_profile g) #
                 concat (map (repo_documents split_text) (gh_repositories g)))"

definition linkedin_profile_document :: "li_profile \<Rightarrow> document" where
  "linkedin_profile_document p =
     \<lparr>page_content =
        ''LinkedIn Profile Summary: '' @ li_headline p @ ''. '' @ li_summary p @
        ''. Location: '' @ li_location p @ '', Industry: '' @ li_industry p @ ''.'',
      metadata = [(''source'', MStr ''linkedin''), (''type'', MStr ''profile'')]\<rparr>"

definition experience_document :: "nat \<times> li_experience \<Rightarrow> document" where
  "experience_document ie =
     (let i = fst ie; exp = snd ie in
      \<lparr>page_content =
         ''LinkedIn Experience '' @ str_int (int i + 1) @ '': '' @ exp_title exp @
         '' at '' @ exp_company exp @ '' ('' @ exp_dates exp @
         '', Location: '' @ exp_location exp @ '').'' @ [CHR 0x0A] @
         ''Description: '' @ exp_description exp,
       metadata = [(''source'', MStr ''linkedin''), (''type'', MStr ''experience''),
                   (''company'', MStr (exp_company exp)), (''title'', MStr (exp_title exp))]\<rparr>)"

definition education_document :: "nat \<times> li_education \<Rightarrow> document" where
  "education_document ie =
     (let i = fst ie; edu = snd ie in
      \<lparr>page_content =
         ''LinkedIn Education '' @ str_int (int i + 1) @ '': '' @ edu_degreeName edu @
         '' in '' @ edu_fieldOfStudy edu @ '' at '' @ edu_schoolName edu @
         '' ('' @ edu_dates edu @ '').'' @ [CHR 0x0A] @
         ''Description: '' @ edu_description edu,
       metadata = [(''source'', MStr ''linkedin''), (''type'', MStr ''education''),
                   (''school'', MStr (edu_schoolName edu)),
                   (''degree'', MStr (edu_degreeName edu))]\<rparr>)"

definition skills_document :: "string list \<Rightarrow> document" where
  "skills_document skills =
     \<lparr>page_content = ''LinkedIn Skills: '' @ join '', '' skills,
      metadata = [(''source'', MStr ''linkedin''), (''type'', MStr ''skills'')]\<rparr>"

definition linkedin_documents :: "linkedin_data option \<Rightarrow> document list" where
  "linkedin_documents linkedin_data =
     (case linkedin_data of
        None \<Rightarrow> []
      | Some l \<Rightarrow> linkedin_profile_document (li_profile l) #
                 map experience_document (enumerate 0 (li_experience l)) @
                 map education_document (enumerate 0 (li_education l)) @
                 (if li_skills l \<noteq> [] then [skills_document (li_skills l)] else []))"

text \<open>
  \<^verbatim>\<open>all_documents\<close> as it stands when \<^verbatim>\<open>create_vectorstore\<close> reaches its emptiness test.
  The parameters are in the order of the \<^verbatim>\<open>def\<close>: \<^verbatim>\<open>resume_text\<close> first, \<^verbatim>\<open>resume_data\<close>
  second. The block for \<^verbatim>\<open>resume_data\<close> runs first.
\<close>

definition all_documents ::
  "splitter \<Rightarrow> pyval \<Rightarrow> pyval \<Rightarrow> github_data option \<Rightarrow> linkedin_data option \<Rightarrow> document list"
where
  "all_documents split_text resume_text resume_data github_data linkedin_data =
     resume_data_documents split_text resume_data @
     resume_text_documents split_text resume_text @
     github_documents split_text github_data @
     linkedin_documents linkedin_data"

text \<open>
  Modelled from the spec: \<^verbatim>\<open>Chroma.from_documents\<close> (langchain/Chroma, not in the
  repository). Section 4.3 of the specification: every chunk is embedded and inserted into
  the index, and the build may fail. The index is the list of inserted documents; the flag
  says whether the library call returned (\<^const>\<open>True\<close>) or raised.
\<close>

record vectorstore =
  collection :: "document list"

definition chroma_from_documents :: "bool \<Rightarrow> document list \<Rightarrow> vectorstore option" where
  "chroma_from_documents build_ok documents =
     (if build_ok then Some \<lparr>collection = documents\<rparr> else None)"

definition create_vectorstore ::
  "splitter \<Rightarrow> bool \<Rightarrow> pyval \<Rightarrow> pyval \<Rightarrow> github_data option \<Rightarrow> linkedin_data option
     \<Rightarrow> vectorstore option"
where
  "create_vectorstore split_text build_ok resume_text resume_data github_data linkedin_data =
     (let docs = all_documents split_text resume_text resume_data github_data linkedin_data in
      if docs = [] then None
      else chroma_from_documents build_ok docs)"

text \<open>
  The exceptions that escape a function of the module. \<^verbatim>\<open>create_vectorstore\<close> constructs
  the embedding object (\<^verbatim>\<open>OpenAIEmbeddings()\<close>) after the emptiness test and before its
  \<^verbatim>\<open>try\<close>, so an exception of that constructor escapes; \<^const>\<open>create_vectorstore\<close>
  above is the value returned when none does. The flag says whether the constructor
  returns.
\<close>

datatype py_error = UnboundLocalError | EmbeddingsError

definition create_vectorstore_raises ::
  "splitter \<Rightarrow> bool \<Rightarrow> pyval \<Rightarrow> pyval \<Rightarrow> github_data option \<Rightarrow> linkedin_data option
     \<Rightarrow> py_error option"
where
  "create_vectorstore_raises split_text embeddings_ok resume_text resume_data github_data
       linkedin_data =
     (if all_documents split_text resume_text resume_data github_data linkedin_data \<noteq> [] \<and>
         \<not> embeddings_ok
      then Some EmbeddingsError else None)"

text \<open>
  The cached wrapper takes \<^verbatim>\<open>(resume_data, resume_text, ...)\<close> and passes its arguments on
  positionally in that order.
\<close>

definition cached_create_vectorstore ::
  "splitter \<Rightarrow> bool \<Rightarrow> pyval \<Rightarrow> pyval \<Rightarrow> github_data option \<Rightarrow> linkedin_data option
     \<Rightarrow> vectorstore option"
where
  "cached_create_vectorstore split_text build_ok resume_data resume_text github_data_json
       linkedin_data_json =
     create_vectorstore split_text build_ok resume_data resume_text github_data_json
       linkedin_data_json"

definition cached_create_vectorstore_raises ::
  "splitter \<Rightarrow> bool \<Rightarrow> pyval \<Rightarrow> pyval \<Rightarrow> github_data option \<Rightarrow> linkedin_data option
     \<Rightarrow> py_error option"
where
  "cached_create_vectorstore_raises split_text embeddings_ok resume_data resume_text
       github_data_json linkedin_data_json =
     create_vectorstore_raises split_text embeddings_ok resume_data resume_text
       github_data_json linkedin_data_json"

section \<open>Retrieval and the RAG chain\<close>

text \<open>
  Modelled from the spec: the similarity search of the Chroma retriever (library code, not
  in the repository). Sections 2 and 4.4 of the specification: given a query and \<open>k\<close>,
  the retriever returns up to \<open>k\<close> chunks of the index, ordered by ascending distance to
  the query. The distance (embedding plus metric) is a parameter into any linear order.
\<close>

definition similarity_search ::
  "(string \<Rightarrow> document \<Rightarrow> 'd::linorder) \<Rightarrow> vectorstore \<Rightarrow> string \<Rightarrow> nat \<Rightarrow> document list"
where
  "similarity_search distance vs query k = take k (sort_key (distance query) (collection vs))"

text \<open>
  \<^verbatim>\<open>vectorstore.as_retriever(search_kwargs={'k': 5})\<close>: the retriever is the store together
  with the search arguments. The source passes \<open>k\<close> and nothing else (no search type, no
  score threshold), so \<open>k\<close> is the only search argument of the model.
\<close>

record retriever =
  retriever_store :: vectorstore
  retriever_k :: nat

definition as_retriever :: "vectorstore \<Rightarrow> nat \<Rightarrow> retriever" where
  "as_retriever vs k = \<lparr>retriever_store = vs, retriever_k = k\<rparr>"

definition retriever_invoke ::
  "(string \<Rightarrow> document \<Rightarrow> 'd::linorder) \<Rightarrow> retriever \<Rightarrow> string \<Rightarrow> document list"
where
  "retriever_invoke distance r query =
     similarity_search distance (retriever_store r) query (retriever_k r)"

definition prompt_head :: string where
  \<open>prompt_head =
     ''You are Binay Siddharth's professional AI assistant. Your purpose is to answer questions about Binay's skills, experience, projects, and career based *only* on the information provided in the context below.\<newline>'' @
     ''\<newline>'' @
     ''        Context Sources: Resume, GitHub profile/repositories, LinkedIn profile.\<newline>'' @
     ''\<newline>'' @
     ''        Instructions:\<newline>'' @
     ''        1.  Answer the user's question concisely and professionally.\<newline>'' @
     ''        2.  Base your answer *strictly* on the provided context.\<newline>'' @
     ''        3.  If the context does not contain the information needed to answer the question, clearly state that the information is not available in the provided documents (resume, GitHub, LinkedIn). Do not make assumptions or use external knowledge.\<newline>'' @
     ''        4.  If relevant, mention the source of the information (e.g., "According to the resume...", "On GitHub, the project...").\<newline>'' @
     ''        5.  Format your answers clearly. Use bullet points for lists if appropriate.\<newline>'' @
     ''        6.  Do not mention the context itself in the final answer unless specifying the source.\<newline>'' @
     ''\<newline>'' @
     ''        Context:\<newline>'' @
     ''        ''\<close>

definition prompt_mid :: string where
  \<open>prompt_mid =
     ''\<newline>'' @
     ''\<newline>'' @
     ''        Question:\<newline>'' @
     ''        ''\<close>

definition prompt_tail :: string where
  \<open>prompt_tail =
     ''\<newline>'' @
     ''\<newline>'' @
     ''        Answer:''\<close>

text \<open>
  The services outside the repository that a session talks to:
  \<^item> \<open>split_text\<close>: the langchain text splitter;
  \<^item> \<open>embeddings_ok\<close>: whether the constructor \<^verbatim>\<open>OpenAIEmbeddings()\<close> returns rather than
    raises;
  \<^item> \<open>index_build_ok\<close>: whether \<^verbatim>\<open>Chroma.from_documents\<close> returns rather than raises;
  \<^item> \<open>chain_build_ok\<close>: whether the constructors inside the \<^verbatim>\<open>try\<close> of
    \<^verbatim>\<open>create_rag_chain\<close> return rather than raise;
  \<^item> \<open>distance\<close>: the distance between a query and a document under the embedding;
  \<^item> \<open>format_documents\<close>: the text that the prompt template puts in place of
    \<^verbatim>\<open>{context}\<close> for a list of documents;
  \<^item> \<open>generate\<close>: the rest of the chain after prompt assembly (model call and output
    parser): \<open>Inr\<close> the answer, or \<open>Inl\<close> the text \<^verbatim>\<open>str(e)\<close> of the exception raised;
  \<^item> \<open>log_create\<close>: how the block of \<^verbatim>\<open>log_chat\<close> that creates the log file with its
    header ends, and \<open>log_append_ok\<close>: whether the block that appends the row succeeds;
  \<^item> \<open>now\<close>: the formatted timestamp.
\<close>

datatype create_outcome = Created | OpenFails | HeaderWriteFails

record 'd backend =
  split_text :: splitter
  embeddings_ok :: bool
  index_build_ok :: bool
  chain_build_ok :: bool
  distance :: "string \<Rightarrow> document \<Rightarrow> 'd"
  format_documents :: "document list \<Rightarrow> string"
  generate :: "string \<Rightarrow> string + string"
  log_create :: create_outcome
  log_append_ok :: bool
  now :: string

text \<open>
  The chain object: the retriever; the prompt template and the model settings are
  constants. \<^verbatim>\<open>create_rag_chain\<close> returns \<^verbatim>\<open>None\<close> for a missing store and when building
  raises. A store object counts as true in \<^verbatim>\<open>if not vectorstore\<close>; the stores that
  \<^verbatim>\<open>create_vectorstore\<close> returns are never empty.
\<close>

record rag_chain =
  chain_retriever :: retriever

definition create_rag_chain :: "bool \<Rightarrow> vectorstore option \<Rightarrow> rag_chain option" where
  "create_rag_chain build_ok vectorstore =
     (case vectorstore of
        None \<Rightarrow> None
      | Some vs \<Rightarrow> if build_ok then Some \<lparr>chain_retriever = as_retriever vs 5\<rparr> else None)"

definition cached_create_rag_chain :: "bool \<Rightarrow> vectorstore option \<Rightarrow> rag_chain option" where
  "cached_create_rag_chain build_ok vectorstore = create_rag_chain build_ok vectorstore"

text \<open>
  \<^verbatim>\<open>{"context": retriever, "input": RunnablePassthrough()} | prompt | llm | StrOutputParser()\<close>:
  the chain's input goes to the retriever and, unchanged, into the \<^verbatim>\<open>{input}\<close> slot.
\<close>

definition chain_prompt :: "('d::linorder) backend \<Rightarrow> rag_chain \<Rightarrow> string \<Rightarrow> string" where
  "chain_prompt b chain question =
     prompt_head @
     format_documents b (retriever_invoke (distance b) (chain_retriever chain) question) @
     prompt_mid @ question @ prompt_tail"

definition chain_invoke :: "('d::linorder) backend \<Rightarrow> rag_chain \<Rightarrow> string \<Rightarrow> string + string" where
  "chain_invoke b chain question = generate b (chain_prompt b chain question)"

section \<open>Session state, the chat section and the chat log\<close>

datatype role = User | Assistant

record message =
  role :: role
  content :: string

text \<open>
  The part of the world that the chat touches. \<open>ss_rag_chain\<close>, \<open>ss_messages\<close> and
  \<open>ss_selected_section\<close> are the keys of \<^verbatim>\<open>st.session_state\<close> (\<^const>\<open>None\<close>: key absent;
  for the chain, \<open>Some None\<close>: key present with value \<^verbatim>\<open>None\<close>). \<open>chat_log\<close> is the file
  \<^verbatim>\<open>chat_log.csv\<close> as its list of rows (\<^const>\<open>None\<close>: no such file). \<open>prompts_sent\<close>
  records every prompt handed to the generation model; the program does not read it.
\<close>

record world =
  ss_rag_chain :: "rag_chain option option"
  ss_messages :: "message list option"
  ss_selected_section :: "string option"
  chat_log :: "string list list option"
  prompts_sent :: "string list"

definition chat_log_header :: "string list" where
  "chat_log_header = [''Timestamp'', ''User Message'', ''AI Response'']"

text \<open>
  \<^verbatim>\<open>log_chat\<close> has two file operations inside one \<^verbatim>\<open>try\<close>. If the file is missing, a
  first \<^verbatim>\<open>open(log_file, "w")\<close> block creates it and writes the header; then a second
  \<^verbatim>\<open>open(log_file, "a")\<close> block appends the row. An exception of either is caught and
  printed, and what was done before it stays:
  \<^item> if opening for creation raises, there is still no file;
  \<^item> if the file was created and writing the header raises, the file is there without a
    row;
  \<^item> if the append raises, the file is as it was before the append: as found, or
    holding the header alone when it has just been created.
  The rows of the model are whole rows.
\<close>

definition log_chat :: "'d backend \<Rightarrow> string \<Rightarrow> string \<Rightarrow> world \<Rightarrow> world" where
  "log_chat b user_message ai_response w =
     (case chat_log w of
        None \<Rightarrow>
          (case log_create b of
             OpenFails \<Rightarrow> w
           | HeaderWriteFails \<Rightarrow> w\<lparr>chat_log := Some []\<rparr>
           | Created \<Rightarrow>
               if log_append_ok b
               then w\<lparr>chat_log :=
                        Some ([chat_log_header] @ [[now b, user_message, ai_response]])\<rparr>
               else w\<lparr>chat_log := Some [chat_log_header]\<rparr>)
      | Some rows \<Rightarrow>
          if log_append_ok b
          then w\<lparr>chat_log := Some (rows @ [[now b, user_message, ai_response]])\<rparr>
          else w)"


definition greeting :: string where
  \<open>greeting = ''Hi there! I'm Binay's AI assistant. Ask me anything about his professional background based on his resume, GitHub, and LinkedIn data.''\<close>

definition apology :: string where
  \<open>apology = ''Apologies, I couldn't process that as my underlying systems are not ready. Please check the application setup.''\<close>

definition error_prefix :: string where
  \<open>error_prefix = ''Sorry, I encountered an error trying to answer that: ''\<close>

definition append_message :: "role \<Rightarrow> string \<Rightarrow> world \<Rightarrow> world" where
  "append_message r c w =
     w\<lparr>ss_messages := Some ((case ss_messages w of None \<Rightarrow> [] | Some ms \<Rightarrow> ms)
                             @ [\<lparr>role = r, content = c\<rparr>])\<rparr>"

definition init_messages :: "world \<Rightarrow> world" where
  "init_messages w =
     (if ss_messages w = None
      then w\<lparr>ss_messages := Some [\<lparr>role = Assistant, content = greeting\<rparr>]\<rparr>
      else w)"

text \<open>
  \<^verbatim>\<open>render_ask_binay_section\<close>. The argument \<open>chat_input\<close> is what \<^verbatim>\<open>st.chat_input\<close>
  returns in this run of the script: \<^const>\<open>None\<close> when nothing was submitted.
\<close>

definition render_ask_binay_section ::
  "('d::linorder) backend \<Rightarrow> string option \<Rightarrow> world \<Rightarrow> world"
where
  "render_ask_binay_section b chat_input w0 =
     (let w = init_messages w0 in
      case chat_input of
        None \<Rightarrow> w
      | Some prompt \<Rightarrow>
          if prompt = [] then w
          else
            (let w1 = append_message User prompt w in
             case ss_rag_chain w1 of
               None \<Rightarrow> append_message Assistant apology w1
             | Some None \<Rightarrow> append_message Assistant apology w1
             | Some (Some chain) \<Rightarrow>
                 (let full_response =
                        (case chain_invoke b chain prompt of
                           Inr response \<Rightarrow> response
                         | Inl e \<Rightarrow> error_prefix @ e);
                      w2 = w1\<lparr>prompts_sent := prompts_sent w1 @ [chain_prompt b chain prompt]\<rparr>;
                      w3 = append_message Assistant full_response w2
                  in log_chat b prompt full_response w3)))"

section \<open>The main script\<close>

text \<open>
  What the extractors meet in the outside world: the module-level \<^verbatim>\<open>resume_data\<close>
  dictionary, the credentials read from the secrets, and for each extractor the value it
  returns (\<^const>\<open>None\<close> for every failure that the extractor catches). For the
  professional network, \<open>linkedin_login_ok\<close> says whether the constructor
  \<^verbatim>\<open>Linkedin(username, password)\<close> returns, and \<open>linkedin_extraction\<close> is what the rest of
  the \<^verbatim>\<open>try\<close> block yields after a login.
\<close>

record sources =
  resume_data :: pyval
  pdf_extraction :: "string option"
  GITHUB_TOKEN :: "string option"
  github_extraction :: "github_data option"
  LINKEDIN_USERNAME :: "string option"
  LINKEDIN_PASSWORD :: "string option"
  linkedin_login_ok :: bool
  linkedin_extraction :: "linkedin_data option"

definition falsy :: "string option \<Rightarrow> bool" where
  "falsy s = (s = None \<or> s = Some [])"

definition cached_extract_text_from_pdf :: "sources \<Rightarrow> string option" where
  "cached_extract_text_from_pdf src = pdf_extraction src"

definition cached_extract_github_info :: "sources \<Rightarrow> github_data option" where
  "cached_extract_github_info src =
     (if falsy (GITHUB_TOKEN src) then None else github_extraction src)"

text \<open>
  \<^verbatim>\<open>extract_linkedin_info\<close> binds \<^verbatim>\<open>profile_id\<close> inside its \<^verbatim>\<open>try\<close>, after the login,
  and its handler formats \<^verbatim>\<open>profile_id\<close> into the error message. When the login raises,
  the handler therefore raises \<^verbatim>\<open>UnboundLocalError\<close>, which nothing catches. Every later
  failure is caught with \<^verbatim>\<open>profile_id\<close> bound and gives \<^verbatim>\<open>None\<close>.
\<close>

definition extract_linkedin_info ::
  "string option \<Rightarrow> string option \<Rightarrow> sources \<Rightarrow> py_error + linkedin_data option"
where
  "extract_linkedin_info username password src =
     (if falsy username \<or> falsy password then Inr None
      else if \<not> linkedin_login_ok src then Inl UnboundLocalError
      else Inr (linkedin_extraction src))"

definition cached_extract_linkedin_info :: "sources \<Rightarrow> py_error + linkedin_data option" where
  "cached_extract_linkedin_info src =
     (if falsy (LINKEDIN_USERNAME src) \<or> falsy (LINKEDIN_PASSWORD src) then Inr None
      else extract_linkedin_info (LINKEDIN_USERNAME src) (LINKEDIN_PASSWORD src) src)"

text \<open>The value of \<^verbatim>\<open>linkedin_data\<close> in \<^verbatim>\<open>main\<close>; there is none when the call raised.\<close>

definition linkedin_data_of :: "py_error + linkedin_data option \<Rightarrow> linkedin_data option" where
  "linkedin_data_of r = (case r of Inl e \<Rightarrow> None | Inr linkedin_data \<Rightarrow> linkedin_data)"

definition py_of_text :: "string option \<Rightarrow> pyval" where
  "py_of_text t = (case t of None \<Rightarrow> PyNone | Some s \<Rightarrow> PyStr s)"

text \<open>
  The user's action that starts a run of the script: possibly a click on a navigation
  button (its callback sets \<^verbatim>\<open>selected_section\<close> before the script runs) and possibly a
  submitted chat input.
\<close>

record run_input =
  nav_click :: "string option"
  chat_input :: "string option"

definition create_sidebar :: "world \<Rightarrow> world" where
  "create_sidebar w =
     (if ss_selected_section w = None then w\<lparr>ss_selected_section := Some ''Ask Binay''\<rparr>
      else w)"

definition on_click :: "string option \<Rightarrow> world \<Rightarrow> world" where
  "on_click c w = (case c of None \<Rightarrow> w | Some s \<Rightarrow> w\<lparr>ss_selected_section := Some s\<rparr>)"

text \<open>
  The dispatch at the end of \<^verbatim>\<open>main\<close>. The other four sections do not touch the chain,
  the messages or the chat log, so they leave this world as it is.
\<close>

definition render_selected_section ::
  "('d::linorder) backend \<Rightarrow> string option \<Rightarrow> world \<Rightarrow> world"
where
  "render_selected_section b inp w =
     (let selected_section =
            (case ss_selected_section w of None \<Rightarrow> ''Ask Binay'' | Some s \<Rightarrow> s) in
      if selected_section = ''Overview & Skills'' then w
      else if selected_section = ''Experience & Projects'' then w
      else if selected_section = ''Ask Binay'' then render_ask_binay_section b inp w
      else if selected_section = ''Feedback'' then w
      else if selected_section = ''Download PDF'' then w
      else render_ask_binay_section b inp (w\<lparr>ss_selected_section := Some ''Ask Binay''\<rparr>))"

text \<open>
  The documents and the store that \<^verbatim>\<open>main\<close> asks for: it calls
  \<^verbatim>\<open>cached_create_vectorstore(resume_data, resume_text, github_data, linkedin_data)\<close>.
\<close>

definition main_vectorstore :: "'d backend \<Rightarrow> sources \<Rightarrow> vectorstore option" where
  "main_vectorstore b src =
     cached_create_vectorstore (split_text b) (index_build_ok b)
       (resume_data src) (py_of_text (cached_extract_text_from_pdf src))
       (cached_extract_github_info src) (linkedin_data_of (cached_extract_linkedin_info src))"

definition main_vectorstore_raises :: "'d backend \<Rightarrow> sources \<Rightarrow> py_error option" where
  "main_vectorstore_raises b src =
     cached_create_vectorstore_raises (split_text b) (embeddings_ok b)
       (resume_data src) (py_of_text (cached_extract_text_from_pdf src))
       (cached_extract_github_info src) (linkedin_data_of (cached_extract_linkedin_info src))"

text \<open>
  \<^verbatim>\<open>main\<close>, one run of the script: the state it leaves, and the exception that escapes
  it, if any. The key \<^verbatim>\<open>rag_chain\<close> is set to \<^verbatim>\<open>None\<close> before the extractors run, the
  three extractors run before the resume text is tested, and the two early \<^verbatim>\<open>return\<close>s
  leave before any section is rendered. Where the professional-network extractor has
  returned, \<^const>\<open>main_vectorstore\<close> and \<^const>\<open>main_vectorstore_raises\<close> are the call
  with the value it returned.
\<close>

definition main ::
  "('d::linorder) backend \<Rightarrow> sources \<Rightarrow> run_input \<Rightarrow> world \<Rightarrow> world \<times> py_error option"
where
  "main b src inp w0 =
     (let w = create_sidebar (on_click (nav_click inp) w0) in
      if ss_rag_chain w = None then
        (let w1 = w\<lparr>ss_rag_chain := Some None\<rparr>;
             resume_text = cached_extract_text_from_pdf src
         in case cached_extract_linkedin_info src of
              Inl e \<Rightarrow> (w1, Some e)
            | Inr linkedin_data \<Rightarrow>
                if falsy resume_text then (w1, None)
                else
                  (case main_vectorstore_raises b src of
                     Some e \<Rightarrow> (w1, Some e)
                   | None \<Rightarrow>
                       (let vectorstore = main_vectorstore b src in
                        if vectorstore = None then (w1, None)
                        else (render_selected_section b (chat_input inp)
                                (w1\<lparr>ss_rag_chain :=
                                      Some (cached_create_rag_chain (chain_build_ok b)
                                              vectorstore)\<rparr>),
                              None))))
      else (render_selected_section b (chat_input inp) w, None))"

text \<open>
  A session: the script runs once for each user action, on the state the last run left,
  also when that run ended with an exception.
\<close>

fun session :: "('d::linorder) backend \<Rightarrow> sources \<Rightarrow> run_input list \<Rightarrow> world \<Rightarrow> world" where
  "session b src [] w = w"
| "session b src (inp # inps) w = session b src inps (fst (main b src inp w))"

definition fresh :: world where
  "fresh = \<lparr>ss_rag_chain = None, ss_messages = None, ss_selected_section = None,
            chat_log = None, prompts_sent = []\<rparr>"

section \<open>Concrete services and inputs\<close>

text \<open>
  Modelled from the spec: the chunker of Section 4.2 (the langchain splitter is not in the
  repository): overlapping fixed-size windows, here with a hard character cut. A text that
  fits the window is one piece; a longer text yields its first \<open>chunk_size\<close> characters
  and the windows of the rest, which starts \<open>chunk_size - chunk_overlap\<close> characters
  further on. It serves as the concrete splitter wherever a definition is evaluated; the
  general theorems hold for every splitter.
\<close>

fun window_split :: splitter where
  "window_split chunk_size chunk_overlap text =
     (if text = [] then []
      else if length text \<le> chunk_size then [text]
      else take chunk_size text #
           window_split chunk_size chunk_overlap
             (drop (max 1 (chunk_size - chunk_overlap)) text))"

declare window_split.simps [simp del]

text \<open>
  A backend whose calls all succeed. The distance of a document is the length of its
  content, whatever the query; the context is the contents joined by blank lines.
\<close>

definition example_backend :: "nat backend" where
  "example_backend =
     \<lparr>split_text = window_split, embeddings_ok = True, index_build_ok = True,
      chain_build_ok = True,
      distance = (\<lambda>q d. length (page_content d)),
      format_documents = (\<lambda>ds. join ''\<newline>\<newline>'' (map page_content ds)),
      generate = (\<lambda>p. Inr ''Commonwealth Bank of Australia''),
      log_create = Created, log_append_ok = True, now = ''2024-01-01 12:00:00''\<rparr>"

text \<open>
  The end-to-end scenario of the specification: a resume text, a code-host profile with
  the one repository \<^verbatim>\<open>resume-app\<close>, and no professional-network credentials.
\<close>

definition resume_app :: gh_repo where
  "resume_app =
     \<lparr>repo_name = ''resume-app'', repo_description = ''No description provided.'',
      repo_url = ''https://github.com/binzidd/resume-app'', repo_language = ''Python'',
      repo_stars = 3, repo_last_updated = ''2024-01-01'',
      repo_readme = readme_not_found\<rparr>"

definition example_github :: github_data where
  "example_github =
     \<lparr>gh_profile =
        \<lparr>gh_username = ''binzidd'', gh_name = ''Binay'', gh_bio = ''N/A'',
         gh_location = ''Sydney'', gh_company = ''N/A'', gh_followers = 12,
         gh_public_repos = 1\<rparr>,
      gh_repositories = [resume_app]\<rparr>"

definition scenario_sources :: sources where
  "scenario_sources =
     \<lparr>resume_data = PyDict [(''References'', ''Available on Request'')],
      pdf_extraction =
        Some ''Senior Manager, Group BI Reporting, Commonwealth Bank of Australia'',
      GITHUB_TOKEN = Some ''token'', github_extraction = Some example_github,
      LINKEDIN_USERNAME = None, LINKEDIN_PASSWORD = None, linkedin_login_ok = True,
      linkedin_extraction = None\<rparr>"

text \<open>The same with no code-host token either: only the resume is available.\<close>

definition resume_only_sources :: sources where
  "resume_only_sources = scenario_sources\<lparr>GITHUB_TOKEN := None\<rparr>"

text \<open>Small stores for the retriever: one document, and six of growing length.\<close>

definition single_store :: vectorstore where
  "single_store = \<lparr>collection = [resume_document (0, ''Sydney, AU'')]\<rparr>"

definition six_store :: vectorstore where
  "six_store =
     \<lparr>collection = map resume_document
        [(0, ''ffffff''), (1, ''a''), (2, ''eeeee''), (3, ''bb''), (4, ''dddd''), (5, ''ccc'')]\<rparr>"

text \<open>
  A chunk clears the minimum relevance \<open>threshold\<close> for a query when its distance to the
  query is at most the threshold.
\<close>

definition clears_relevance ::
  "(string \<Rightarrow> document \<Rightarrow> 'd::linorder) \<Rightarrow> 'd \<Rightarrow> string \<Rightarrow> document \<Rightarrow> bool"
where
  "clears_relevance dist threshold query d = (dist query d \<le> threshold)"

section \<open>Notions used in the statements\<close>

text \<open>The conversation history as a list, and the texts of its assistant turns.\<close>

definition msgs :: "world \<Rightarrow> message list" where
  "msgs w = (case ss_messages w of None \<Rightarrow> [] | Some ms \<Rightarrow> ms)"

definition assistant_texts :: "world \<Rightarrow> string list" where
  "assistant_texts w = map content (filter (\<lambda>m. role m = Assistant) (msgs w))"

text \<open>
  The list \<^verbatim>\<open>all_documents\<close> for the call that \<^verbatim>\<open>main\<close> makes: the arguments travel
  through \<^const>\<open>cached_create_vectorstore\<close> in the order in which \<^verbatim>\<open>main\<close> gives them.
\<close>

definition main_documents :: "'d backend \<Rightarrow> sources \<Rightarrow> document list" where
  "main_documents b src =
     all_documents (split_text b) (resume_data src)
       (py_of_text (cached_extract_text_from_pdf src))
       (cached_extract_github_info src) (linkedin_data_of (cached_extract_linkedin_info src))"

text \<open>
  The state of a session that has no chain and has never had one: no prompt was sent to
  the generation model, and the assistant has said nothing but its two fixed texts.
\<close>

definition chain_unavailable :: "world \<Rightarrow> bool" where
  "chain_unavailable w \<longleftrightarrow>
     (ss_rag_chain w = None \<or> ss_rag_chain w = Some None) \<and> prompts_sent w = [] \<and>
     set (assistant_texts w) \<subseteq> {greeting, apology}"

text \<open>
  The value of the variable \<^verbatim>\<open>full_response\<close> when \<^verbatim>\<open>render_ask_binay_section\<close> leaves
  its \<^verbatim>\<open>try\<close> statement, and the rows of the chat log on which \<^verbatim>\<open>log_chat\<close> appends
  (the header alone when the file has to be created).
\<close>

definition full_response :: "('d::linorder) backend \<Rightarrow> rag_chain \<Rightarrow> string \<Rightarrow> string" where
  "full_response b chain prompt =
     (case chain_invoke b chain prompt of
        Inr response \<Rightarrow> response
      | Inl e \<Rightarrow> error_prefix @ e)"

definition rows_before :: "string list list option \<Rightarrow> string list list" where
  "rows_before log = (case log of None \<Rightarrow> [chat_log_header] | Some rows \<Rightarrow> rows)"

text \<open>
  The repository name in a document's metadata, and the contract of a splitter for one
  profile: no piece is longer than the chunk size.
\<close>

definition repo_name_of :: "document \<Rightarrow> string" where
  "repo_name_of d = (case map_of (metadata d) ''repo_name'' of Some (MStr n) \<Rightarrow> n | _ \<Rightarrow> [])"

definition respects_chunk_size :: "splitter \<Rightarrow> nat \<Rightarrow> nat \<Rightarrow> bool" where
  "respects_chunk_size split chunk_size chunk_overlap \<longleftrightarrow>
     (\<forall>text. \<forall>c \<in> set (split chunk_size chunk_overlap text). length c \<le> chunk_size)"

text \<open>User actions: loading the page, and submitting a question.\<close>

definition page_load :: run_input where
  "page_load = \<lparr>nav_click = None, chat_input = None\<rparr>"

definition ask :: "string \<Rightarrow> run_input" where
  "ask q = \<lparr>nav_click = None, chat_input = Some q\<rparr>"

text \<open>
  Further inputs: the scenario with an unreadable resume file; a repository whose README
  is 1500 characters long; a backend whose generation call times out, one whose log
  file cannot be created and one whose log file cannot be appended to; a session state
  with a chain, before and after some conversation. And three variations of the scenario
  in which the resume text is extracted: the code host fails; the professional network
  has credentials and its login raises; the code host fails and the professional network
  delivers a profile.
\<close>

definition pdf_missing_sources :: sources where
  "pdf_missing_sources = scenario_sources\<lparr>pdf_extraction := None\<rparr>"

definition github_failing_sources :: sources where
  "github_failing_sources = scenario_sources\<lparr>github_extraction := None\<rparr>"

definition login_failing_sources :: sources where
  "login_failing_sources =
     scenario_sources\<lparr>LINKEDIN_USERNAME := Some ''user'', LINKEDIN_PASSWORD := Some ''secret'',
                      linkedin_login_ok := False\<rparr>"

definition example_linkedin :: linkedin_data where
  "example_linkedin =
     \<lparr>li_profile =
        \<lparr>li_summary = ''N/A'', li_headline = ''Senior Manager'', li_location = ''Sydney'',
         li_industry = ''Banking''\<rparr>,
      li_experience = [], li_education = [], li_skills = [''SQL'', ''Python'']\<rparr>"

definition linkedin_only_sources :: sources where
  "linkedin_only_sources =
     scenario_sources\<lparr>github_extraction := None, LINKEDIN_USERNAME := Some ''user'',
                      LINKEDIN_PASSWORD := Some ''secret'',
                      linkedin_extraction := Some example_linkedin\<rparr>"

definition long_readme :: string where
  "long_readme = replicate 1500 (CHR ''a'')"

definition documented_repo :: gh_repo where
  "documented_repo = resume_app\<lparr>repo_readme := long_readme\<rparr>"

definition documented_github :: github_data where
  "documented_github = example_github\<lparr>gh_repositories := [documented_repo]\<rparr>"

definition failing_backend :: "nat backend" where
  "failing_backend = example_backend\<lparr>generate := (\<lambda>p. Inl ''Request timed out.'')\<rparr>"

definition unwritable_backend :: "nat backend" where
  "unwritable_backend = example_backend\<lparr>log_create := OpenFails\<rparr>"

definition append_failing_backend :: "nat backend" where
  "append_failing_backend = example_backend\<lparr>log_append_ok := False\<rparr>"

definition single_chain :: rag_chain where
  "single_chain = \<lparr>chain_retriever = as_retriever single_store 5\<rparr>"

definition ready_world :: world where
  "ready_world = fresh\<lparr>ss_rag_chain := Some (Some single_chain)\<rparr>"


section \<open>Properties of the splitter model and the document builders\<close>

lemma window_split_bound: "c \<in> set (window_split n ov t) \<Longrightarrow> length c \<le> n"
  by (induction n ov t rule: window_split.induct)
     (subst (asm) window_split.simps, auto split: if_splits)

lemma window_split_whole: "t \<noteq> [] \<Longrightarrow> length t \<le> n \<Longrightarrow> window_split n ov t = [t]"
  by (subst window_split.simps) simp

text \<open>
  With a dictionary where the text is expected and a text (or nothing) where the
  dictionary is expected, neither resume block of \<^verbatim>\<open>create_vectorstore\<close> runs.
\<close>

lemma resume_blocks_swapped:
  "resume_text_documents s (PyDict d) = []"
  "resume_data_documents s (PyStr t) = []"
  "resume_data_documents s PyNone = []"
  by (simp_all add: resume_text_documents_def resume_data_documents_def)

section \<open>Lengths of the documents\<close>

lemma window_split_respects: "respects_chunk_size window_split n ov"
  using window_split_bound by (auto simp: respects_chunk_size_def)

lemma enumerate_snd: "p \<in> set (enumerate n xs) \<Longrightarrow> snd p \<in> set xs"
  by (metis enumerate_eq_zip set_zip_rightD surjective_pairing)

lemma resume_document_fields [simp]:
  "page_content (resume_document p) = snd p"
  "source_of (resume_document p) = Some (MStr ''resume'')"
  "type_of (resume_document p) = None"
  by (simp_all add: resume_document_def source_of_def type_of_def)

lemma resume_text_documents_bound:
  assumes "respects_chunk_size s 1000 150" and "d \<in> set (resume_text_documents s rt)"
  shows "length (page_content d) \<le> 1000 \<and> type_of d = None"
  using assms
  by (auto simp: resume_text_documents_def text_splitter_medium_def respects_chunk_size_def
      split: if_splits dest!: enumerate_snd)

lemma resume_data_documents_bound:
  assumes "respects_chunk_size s 1000 150" and "d \<in> set (resume_data_documents s rd)"
  shows "length (page_content d) \<le> 1000 \<and> type_of d = None"
  using assms
  by (auto simp: resume_data_documents_def text_splitter_medium_def respects_chunk_size_def
      split: if_splits dest!: enumerate_snd)

lemma repo_documents_shape:
  assumes "respects_chunk_size s 1500 200" and "d \<in> set (repo_documents s repo)"
  shows "source_of d = Some (MStr ''github'') \<and>
         (type_of d = Some (MStr ''readme'') \<longrightarrow>
            length (page_content d) \<le> length (readme_label (repo_name_of d)) + 1500)"
  using assms
  by (auto simp: repo_documents_def text_splitter_large_def respects_chunk_size_def
      repo_summary_document_def readme_document_def source_of_def type_of_def repo_name_of_def
      split: if_splits dest!: enumerate_snd)

lemma github_documents_shape:
  assumes "respects_chunk_size s 1500 200" and "d \<in> set (github_documents s gh)"
  shows "source_of d = Some (MStr ''github'') \<and>
         (type_of d = Some (MStr ''readme'') \<longrightarrow>
            length (page_content d) \<le> length (readme_label (repo_name_of d)) + 1500)"
proof (cases gh)
  case None
  then show ?thesis using assms(2) by (simp add: github_documents_def)
next
  case (Some g)
  then consider "d = github_profile_document (gh_profile g)"
    | repo where "repo \<in> set (gh_repositories g)" "d \<in> set (repo_documents s repo)"
    using assms(2) by (auto simp: github_documents_def)
  then show ?thesis
  proof cases
    case 1
    then show ?thesis by (simp add: github_profile_document_def source_of_def type_of_def)
  next
    case 2
    then show ?thesis using repo_documents_shape [OF assms(1)] by blast
  qed
qed

lemma linkedin_documents_shape:
  assumes "d \<in> set (linkedin_documents li)"
  shows "source_of d = Some (MStr ''linkedin'') \<and> type_of d \<noteq> Some (MStr ''readme'')"
  using assms
  by (auto simp: linkedin_documents_def linkedin_profile_document_def experience_document_def
      education_document_def skills_document_def source_of_def type_of_def Let_def
      split: option.splits if_splits)

lemma long_readme_facts:
  "long_readme \<noteq> []" "length long_readme = 1500" "long_readme \<noteq> readme_not_found"
proof -
  show "long_readme \<noteq> []" and len: "length long_readme = 1500"
    by (simp_all add: long_readme_def)
  have "length readme_not_found = 41" by (simp add: readme_not_found_def)
  then show "long_readme \<noteq> readme_not_found"
    using len by auto
qed

lemma documented_docs:
  "all_documents window_split PyNone PyNone (Some documented_github) None =
     [github_profile_document (gh_profile example_github),
      repo_summary_document documented_repo,
      readme_document documented_repo (0, long_readme)]"
  by (simp add: all_documents_def resume_blocks_swapped resume_text_documents_def
      github_documents_def linkedin_documents_def documented_github_def repo_documents_def
      documented_repo_def long_readme_facts text_splitter_large_def window_split_whole
      enumerate_eq_zip example_github_def)

text \<open>
  Claim C4, as stated, fails: the splitter returns the 1500 characters of the README as
  one piece, within the bound of the prose profile, and the README chunk built from it
  has 1528 characters.
\<close>

theorem chunk_length_counterexample:
  "window_split 1500 200 long_readme = [long_readme] \<and> length long_readme = 1500 \<and>
   type_of (all_documents window_split PyNone PyNone (Some documented_github) None ! 2)
     = Some (MStr ''readme'') \<and>
   length (page_content
      (all_documents window_split PyNone PyNone (Some documented_github) None ! 2)) = 1528"
  by (simp add: documented_docs readme_document_def type_of_def readme_label_def
      documented_repo_def resume_app_def long_readme_facts window_split_whole)

text \<open>
  Claim C4 as amended. For every splitter that keeps its pieces within the chunk size of
  each profile, every chunk tagged \<open>source = resume\<close> has at most 1000 characters, and
  every README chunk has at most 1500 characters after its label
  \<^verbatim>\<open>GitHub README (<repository name>): \<close>.
\<close>

theorem chunk_length_bounds:
  assumes "respects_chunk_size split 1000 150" and "respects_chunk_size split 1500 200"
    and "d \<in> set (all_documents split rt rd gh li)"
  shows "(source_of d = Some (MStr ''resume'') \<longrightarrow> length (page_content d) \<le> 1000) \<and>
         (type_of d = Some (MStr ''readme'') \<longrightarrow>
            length (page_content d) \<le> length (readme_label (repo_name_of d)) + 1500)"
proof -
  consider "d \<in> set (resume_data_documents split rd)"
    | "d \<in> set (resume_text_documents split rt)"
    | "d \<in> set (github_documents split gh)"
    | "d \<in> set (linkedin_documents li)"
    using assms(3) by (auto simp: all_documents_def)
  then show ?thesis
  proof cases
    case 1
    then show ?thesis using resume_data_documents_bound [OF assms(1)] by simp
  next
    case 2
    then show ?thesis using resume_text_documents_bound [OF assms(1)] by simp
  next
    case 3
    then show ?thesis using github_documents_shape [OF assms(2)] by simp
  next
    case 4
    then show ?thesis using linkedin_documents_shape by simp
  qed
qed

theorem chunk_length_bounds_witness:
  "readme_document documented_repo (0, long_readme)
     \<in> set (all_documents window_split PyNone PyNone (Some documented_github) None) \<and>
   type_of (readme_document documented_repo (0, long_readme)) = Some (MStr ''readme'') \<and>
   length (page_content (readme_document documented_repo (0, long_readme)))
     \<le> length (readme_label ''resume-app'') + 1500"
proof -
  have member: "readme_document documented_repo (0, long_readme)
     \<in> set (all_documents window_split PyNone PyNone (Some documented_github) None)"
    by (simp add: documented_docs)
  have readme: "type_of (readme_document documented_repo (0, long_readme)) = Some (MStr ''readme'')"
    by (simp add: readme_document_def type_of_def)
  have name: "repo_name_of (readme_document documented_repo (0, long_readme)) = ''resume-app''"
    by (simp add: readme_document_def repo_name_of_def documented_repo_def resume_app_def)
  show ?thesis
    using member readme name
      chunk_length_bounds [OF window_split_respects window_split_respects member]
    by simp
qed

section \<open>The resume in the index\<close>

text \<open>
  Claim C1 fails on the code. In the scenario of the specification the resume text is
  extracted, and the store that \<^verbatim>\<open>main\<close> builds holds the two code-host chunks and no
  chunk tagged \<open>source = resume\<close>; with the resume as the only available source, no store
  is built at all. Called with its arguments in the order of its own parameters,
  \<^verbatim>\<open>create_vectorstore\<close> does produce the resume chunk.
\<close>

theorem main_index_lacks_resume:
  "map_option (map source_of \<circ> collection) (main_vectorstore example_backend scenario_sources)
     = Some [Some (MStr ''github''), Some (MStr ''github'')] \<and>
   main_vectorstore example_backend resume_only_sources = None \<and>
   map_option (map source_of \<circ> collection)
     (create_vectorstore window_split True
        (PyStr ''Senior Manager, Group BI Reporting, Commonwealth Bank of Australia'')
        (PyDict [(''References'', ''Available on Request'')]) None None)
     = Some [Some (MStr ''resume''), Some (MStr ''resume'')]"
proof -
  have scenario:
    "map_option (map source_of \<circ> collection) (main_vectorstore example_backend scenario_sources)
       = Some [Some (MStr ''github''), Some (MStr ''github'')]"
    by (simp add: main_vectorstore_def cached_create_vectorstore_def create_vectorstore_def
        all_documents_def resume_blocks_swapped scenario_sources_def example_backend_def
        py_of_text_def cached_extract_text_from_pdf_def cached_extract_github_info_def
        cached_extract_linkedin_info_def linkedin_data_of_def falsy_def github_documents_def
        linkedin_documents_def example_github_def repo_documents_def resume_app_def chroma_from_documents_def
        source_of_def github_profile_document_def repo_summary_document_def Let_def)
  have only: "main_vectorstore example_backend resume_only_sources = None"
    by (simp add: main_vectorstore_def cached_create_vectorstore_def create_vectorstore_def
        all_documents_def resume_blocks_swapped scenario_sources_def resume_only_sources_def
        example_backend_def py_of_text_def cached_extract_text_from_pdf_def
        cached_extract_github_info_def cached_extract_linkedin_info_def linkedin_data_of_def
        falsy_def github_documents_def linkedin_documents_def Let_def)
  have direct:
    "map_option (map source_of \<circ> collection)
       (create_vectorstore window_split True
          (PyStr ''Senior Manager, Group BI Reporting, Commonwealth Bank of Australia'')
          (PyDict [(''References'', ''Available on Request'')]) None None)
       = Some [Some (MStr ''resume''), Some (MStr ''resume'')]"
    by (simp add: create_vectorstore_def all_documents_def resume_text_documents_def
        resume_data_documents_def resume_data_str_def text_splitter_medium_def
        window_split_whole enumerate_eq_zip github_documents_def linkedin_documents_def
        chroma_from_documents_def Let_def)
  show ?thesis
    using scenario only direct by simp
qed

text \<open>
  In general: the resume data is a dictionary and the extracted resume is a text or
  nothing, so the documents of the call in \<^verbatim>\<open>main\<close> are those of the code host and of
  the professional network alone.
\<close>

lemma main_documents_without_resume:
  assumes "isinstance_dict (resume_data src)"
  shows "main_documents b src =
           github_documents (split_text b) (cached_extract_github_info src) @
           linkedin_documents (linkedin_data_of (cached_extract_linkedin_info src))"
proof -
  obtain d where "resume_data src = PyDict d"
    using assms by (cases "resume_data src") simp_all
  then show ?thesis
    by (cases "cached_extract_text_from_pdf src")
       (simp_all add: main_documents_def all_documents_def py_of_text_def resume_blocks_swapped)
qed

section \<open>Retrieval\<close>

lemma similarity_search_length: "length (similarity_search dist vs q k) \<le> k"
  by (simp add: similarity_search_def)

lemma similarity_search_subset:
  "set (similarity_search dist vs q k) \<subseteq> set (collection vs)"
  using set_take_subset [of k "sort_key (dist q) (collection vs)"]
  by (simp add: similarity_search_def)

text \<open>
  Claim C6. The retriever of the chain that \<^verbatim>\<open>create_rag_chain\<close> builds on a store is
  configured with \<open>k = 5\<close>; for every query and every distance it returns at most five
  chunks, and each returned chunk is a chunk of that store.
\<close>

theorem retriever_at_most_k_from_index:
  "create_rag_chain ok (Some vs) = Some chain \<Longrightarrow>
     retriever_k (chain_retriever chain) = 5 \<and>
     length (retriever_invoke dist (chain_retriever chain) q) \<le> 5 \<and>
     set (retriever_invoke dist (chain_retriever chain) q) \<subseteq> set (collection vs)"
  using similarity_search_length [of dist vs q 5] similarity_search_subset [of dist vs q 5]
  by (auto simp: create_rag_chain_def as_retriever_def retriever_invoke_def split: if_splits)

theorem retriever_at_most_k_from_index_witness:
  "create_rag_chain True (Some six_store) = Some \<lparr>chain_retriever = as_retriever six_store 5\<rparr> \<and>
   length (retriever_invoke (distance example_backend) (as_retriever six_store 5) ''skills'') \<le> 5 \<and>
   set (retriever_invoke (distance example_backend) (as_retriever six_store 5) ''skills'')
     \<subseteq> set (collection six_store)"
proof -
  have built:
    "create_rag_chain True (Some six_store) = Some \<lparr>chain_retriever = as_retriever six_store 5\<rparr>"
    by (simp add: create_rag_chain_def)
  show ?thesis
    using built
      retriever_at_most_k_from_index [OF built, of "distance example_backend" "''skills''"]
    by simp
qed

text \<open>
  Claim C7, as stated, fails: the store holds one chunk, no chunk is within distance 0 of
  the query, and the retriever of the chain still returns that chunk.
\<close>

theorem retriever_threshold_counterexample:
  "create_rag_chain True (Some single_store)
     = Some \<lparr>chain_retriever = as_retriever single_store 5\<rparr> \<and>
   collection single_store \<noteq> [] \<and>
   \<not> list_ex (clears_relevance (distance example_backend) 0 ''What is his salary?'')
        (collection single_store) \<and>
   retriever_invoke (distance example_backend) (as_retriever single_store 5)
       ''What is his salary?''
     = collection single_store"
  by (simp add: create_rag_chain_def single_store_def clears_relevance_def example_backend_def
      resume_document_def retriever_invoke_def as_retriever_def similarity_search_def)

text \<open>
  Claim C7 as amended. The retriever of the chain applies no relevance threshold: on a
  non-empty store it returns, for every query and every distance, the five nearest
  chunks, or all of them when the store holds fewer; it never returns an empty sequence
  there.
\<close>

theorem retriever_no_threshold:
  assumes "create_rag_chain ok (Some vs) = Some chain" and "collection vs \<noteq> []"
  shows "retriever_invoke dist (chain_retriever chain) q
           = take 5 (sort_key (dist q) (collection vs)) \<and>
         length (retriever_invoke dist (chain_retriever chain) q)
           = min 5 (length (collection vs)) \<and>
         retriever_invoke dist (chain_retriever chain) q \<noteq> []"
proof -
  have sorted_nonempty: "sort_key (dist q) (collection vs) \<noteq> []"
    using length_sort [of "dist q" "collection vs"] assms(2) by (metis length_0_conv)
  from assms(1) have
    "retriever_invoke dist (chain_retriever chain) q = take 5 (sort_key (dist q) (collection vs))"
    by (auto simp: create_rag_chain_def as_retriever_def retriever_invoke_def
        similarity_search_def split: if_splits)
  then show ?thesis
    using sorted_nonempty by simp
qed

theorem retriever_no_threshold_witness:
  "create_rag_chain True (Some six_store) = Some \<lparr>chain_retriever = as_retriever six_store 5\<rparr> \<and>
   length (collection six_store) = 6 \<and>
   map page_content
     (retriever_invoke (distance example_backend) (as_retriever six_store 5) ''skills'')
     = [''a'', ''bb'', ''ccc'', ''dddd'', ''eeeee'']"
proof -
  have built:
    "create_rag_chain True (Some six_store) = Some \<lparr>chain_retriever = as_retriever six_store 5\<rparr>"
    by (simp add: create_rag_chain_def)
  have nonempty: "collection six_store \<noteq> []"
    by (simp add: six_store_def)
  show ?thesis
    using built
      retriever_no_threshold [OF built nonempty, of "distance example_backend" "''skills''"]
    by (simp add: six_store_def example_backend_def resume_document_def)
qed

section \<open>The chat section\<close>

lemma append_message_fields [simp]:
  "ss_rag_chain (append_message r c w) = ss_rag_chain w"
  "chat_log (append_message r c w) = chat_log w"
  "prompts_sent (append_message r c w) = prompts_sent w"
  "msgs (append_message r c w) = msgs w @ [\<lparr>role = r, content = c\<rparr>]"
  by (simp_all add: append_message_def msgs_def)

lemma init_messages_fields [simp]:
  "ss_rag_chain (init_messages w) = ss_rag_chain w"
  "chat_log (init_messages w) = chat_log w"
  "prompts_sent (init_messages w) = prompts_sent w"
  "msgs (init_messages w) =
     (if ss_messages w = None then [\<lparr>role = Assistant, content = greeting\<rparr>] else msgs w)"
  by (simp_all add: init_messages_def msgs_def)

lemma log_chat_fields [simp]:
  "ss_rag_chain (log_chat b u a w) = ss_rag_chain w"
  "msgs (log_chat b u a w) = msgs w"
  "prompts_sent (log_chat b u a w) = prompts_sent w"
  by (simp_all add: log_chat_def msgs_def split: option.splits create_outcome.splits)

text \<open>The chat log after \<^verbatim>\<open>log_chat\<close>, for each way its file operations can end.\<close>

lemma log_chat_written:
  assumes "log_append_ok b" and "chat_log w = None \<longrightarrow> log_create b = Created"
  shows "chat_log (log_chat b u a w) = Some (rows_before (chat_log w) @ [[now b, u, a]])"
  using assms by (simp add: log_chat_def rows_before_def split: option.splits)


lemma log_chat_failed:
  "chat_log w = Some rows \<Longrightarrow> \<not> log_append_ok b \<Longrightarrow>
     chat_log (log_chat b u a w) = Some rows"
  "chat_log w = None \<Longrightarrow> log_create b = OpenFails \<Longrightarrow> chat_log (log_chat b u a w) = None"
  "chat_log w = None \<Longrightarrow> log_create b = HeaderWriteFails \<Longrightarrow>
     chat_log (log_chat b u a w) = Some []"
  "chat_log w = None \<Longrightarrow> log_create b = Created \<Longrightarrow> \<not> log_append_ok b \<Longrightarrow>
     chat_log (log_chat b u a w) = Some [chat_log_header]"
  by (simp_all add: log_chat_def)

lemma msgs_prompts_update [simp]: "msgs (w\<lparr>prompts_sent := p\<rparr>) = msgs w"
  by (simp add: msgs_def)

text \<open>The three paths through \<^verbatim>\<open>render_ask_binay_section\<close>.\<close>

lemma render_ask_no_input:
  "i = None \<or> i = Some [] \<Longrightarrow> render_ask_binay_section b i w = init_messages w"
  by (auto simp: render_ask_binay_section_def Let_def)

lemma render_ask_without_chain:
  assumes "ss_rag_chain w = None \<or> ss_rag_chain w = Some None" and "q \<noteq> []"
  shows "render_ask_binay_section b (Some q) w =
           append_message Assistant apology (append_message User q (init_messages w))"
  using assms by (auto simp: render_ask_binay_section_def Let_def)

lemma render_ask_with_chain:
  assumes "ss_rag_chain w = Some (Some chain)" and "q \<noteq> []"
  shows "render_ask_binay_section b (Some q) w =
           log_chat b q (full_response b chain q)
             (append_message Assistant (full_response b chain q)
                ((append_message User q (init_messages w))
                   \<lparr>prompts_sent := prompts_sent w @ [chain_prompt b chain q]\<rparr>))"
  using assms by (simp add: render_ask_binay_section_def Let_def full_response_def)

lemma render_ask_rag_chain [simp]:
  "ss_rag_chain (render_ask_binay_section b i w) = ss_rag_chain w"
proof (cases "i = None \<or> i = Some []")
  case True
  then show ?thesis by (simp add: render_ask_no_input)
next
  case False
  then obtain q where q: "i = Some q" "q \<noteq> []" by auto
  show ?thesis
  proof (cases "ss_rag_chain w = None \<or> ss_rag_chain w = Some None")
    case True
    then show ?thesis using q by (simp add: render_ask_without_chain)
  next
    case False
    then obtain chain where "ss_rag_chain w = Some (Some chain)" by auto
    then show ?thesis using q by (simp add: render_ask_with_chain)
  qed
qed

lemma ready_world_fields:
  "ss_rag_chain ready_world = Some (Some single_chain)" "ss_messages ready_world = None"
  "chat_log ready_world = None" "prompts_sent ready_world = []" "msgs ready_world = []"
  by (simp_all add: ready_world_def fresh_def msgs_def)






text \<open>
  Claim C10, as stated, fails: with a chain in the session, a question is answered and
  the chat log gets no row. When the log file cannot be created there is no file
  afterwards; when it is created and the append fails, it holds its header alone.
\<close>

theorem chat_log_row_counterexample:
  "ss_rag_chain ready_world = Some (Some single_chain) \<and>
   assistant_texts (render_ask_binay_section unwritable_backend (Some ''Where does Binay work?'')
      ready_world) = [greeting, ''Commonwealth Bank of Australia''] \<and>
   chat_log ready_world = None \<and>
   chat_log (render_ask_binay_section unwritable_backend (Some ''Where does Binay work?'')
      ready_world) = None \<and>
   chat_log (render_ask_binay_section append_failing_backend (Some ''Where does Binay work?'')
      ready_world) = Some [chat_log_header]"
  by (simp add: render_ask_with_chain [OF ready_world_fields(1)] ready_world_fields
      assistant_texts_def full_response_def chain_invoke_def unwritable_backend_def
      append_failing_backend_def example_backend_def log_chat_def)

text \<open>
  Claim C10 as amended. A question submitted while the session has no chain (key absent
  or \<^verbatim>\<open>None\<close>) appends the user's message and the fixed apology to the history and leaves
  the chat log untouched. A question submitted while the session has a chain, whether
  generation succeeds or fails, appends exactly one row (timestamp, question, response)
  to the chat log, after the header if the file was missing, provided the file
  operations of \<^verbatim>\<open>log_chat\<close> succeed. If one of them raises, no row for the turn is
  written: a log file that was there is left as it was, and a log file that was missing
  is still missing, or is there without any row, or holds the header alone.
\<close>

theorem chat_log_rows:
  assumes "q \<noteq> []"
  shows "((ss_rag_chain w = None \<or> ss_rag_chain w = Some None) \<longrightarrow>
            msgs (render_ask_binay_section b (Some q) w) =
              msgs (init_messages w) @
                [\<lparr>role = User, content = q\<rparr>, \<lparr>role = Assistant, content = apology\<rparr>] \<and>
            chat_log (render_ask_binay_section b (Some q) w) = chat_log w) \<and>
         (\<forall>chain. ss_rag_chain w = Some (Some chain) \<longrightarrow>
            (log_append_ok b \<and> (chat_log w = None \<longrightarrow> log_create b = Created) \<longrightarrow>
               chat_log (render_ask_binay_section b (Some q) w) =
                 Some (rows_before (chat_log w) @ [[now b, q, full_response b chain q]])) \<and>
            (\<forall>rows. chat_log w = Some rows \<and> \<not> log_append_ok b \<longrightarrow>
               chat_log (render_ask_binay_section b (Some q) w) = Some rows) \<and>
            (chat_log w = None \<and> log_create b = OpenFails \<longrightarrow>
               chat_log (render_ask_binay_section b (Some q) w) = None) \<and>
            (chat_log w = None \<and> log_create b = HeaderWriteFails \<longrightarrow>
               chat_log (render_ask_binay_section b (Some q) w) = Some []) \<and>
            (chat_log w = None \<and> log_create b = Created \<and> \<not> log_append_ok b \<longrightarrow>
               chat_log (render_ask_binay_section b (Some q) w) = Some [chat_log_header]))"
proof -
  have without: "msgs (render_ask_binay_section b (Some q) w) =
              msgs (init_messages w) @
                [\<lparr>role = User, content = q\<rparr>, \<lparr>role = Assistant, content = apology\<rparr>] \<and>
            chat_log (render_ask_binay_section b (Some q) w) = chat_log w"
    if "ss_rag_chain w = None \<or> ss_rag_chain w = Some None"
    using that assms by (auto simp: render_ask_without_chain)
  have logged: "chat_log (render_ask_binay_section b (Some q) w) =
      chat_log (log_chat b q (full_response b chain q) w)"
    if "ss_rag_chain w = Some (Some chain)" for chain
    using that assms by (simp add: render_ask_with_chain log_chat_def split: option.splits
        create_outcome.splits)
  show ?thesis
    using without logged
    by (auto simp: log_chat_written log_chat_failed)
qed

theorem chat_log_rows_witness:
  "msgs (render_ask_binay_section example_backend (Some ''Where does Binay work?'') fresh)
     = [\<lparr>role = Assistant, content = greeting\<rparr>,
        \<lparr>role = User, content = ''Where does Binay work?''\<rparr>,
        \<lparr>role = Assistant, content = apology\<rparr>] \<and>
   chat_log (render_ask_binay_section example_backend (Some ''Where does Binay work?'') fresh)
     = None \<and>
   chat_log (render_ask_binay_section example_backend (Some ''Where does Binay work?'') ready_world)
     = Some [chat_log_header,
             [''2024-01-01 12:00:00'', ''Where does Binay work?'',
              ''Commonwealth Bank of Australia'']] \<and>
   chat_log (render_ask_binay_section failing_backend (Some ''Where does Binay work?'') ready_world)
     = Some [chat_log_header,
             [''2024-01-01 12:00:00'', ''Where does Binay work?'',
              error_prefix @ ''Request timed out.'']] \<and>
   chat_log (render_ask_binay_section append_failing_backend (Some ''Where does Binay work?'')
      ready_world) = Some [chat_log_header]"
proof -
  have asked: "''Where does Binay work?'' \<noteq> []" by simp
  have absent: "ss_rag_chain fresh = None" "ss_messages fresh = None" "chat_log fresh = None"
    by (simp_all add: fresh_def)
  have answers:
    "full_response example_backend single_chain ''Where does Binay work?''
       = ''Commonwealth Bank of Australia''"
    "full_response failing_backend single_chain ''Where does Binay work?''
       = error_prefix @ ''Request timed out.''"
    by (simp_all add: full_response_def chain_invoke_def failing_backend_def example_backend_def)
  have files:
    "log_append_ok example_backend" "log_create example_backend = Created"
    "now example_backend = ''2024-01-01 12:00:00''"
    "log_append_ok failing_backend" "log_create failing_backend = Created"
    "now failing_backend = ''2024-01-01 12:00:00''"
    "\<not> log_append_ok append_failing_backend" "log_create append_failing_backend = Created"
    by (simp_all add: failing_backend_def append_failing_backend_def example_backend_def)
  show ?thesis
    using absent answers files ready_world_fields
      chat_log_rows [OF asked, of fresh example_backend]
      chat_log_rows [OF asked, of ready_world example_backend]
      chat_log_rows [OF asked, of ready_world failing_backend]
      chat_log_rows [OF asked, of ready_world append_failing_backend]
    by (simp add: rows_before_def)
qed

section \<open>The main script and whole sessions\<close>

lemma main_vectorstore_documents:
  "main_vectorstore b src =
     (if main_documents b src = [] then None
      else chroma_from_documents (index_build_ok b) (main_documents b src))"
  by (simp add: main_vectorstore_def cached_create_vectorstore_def create_vectorstore_def
      main_documents_def Let_def)

lemma main_vectorstore_raises_documents:
  "main_vectorstore_raises b src =
     (if main_documents b src \<noteq> [] \<and> \<not> embeddings_ok b then Some EmbeddingsError else None)"
  by (simp add: main_vectorstore_raises_def cached_create_vectorstore_raises_def
      create_vectorstore_raises_def main_documents_def)

lemma sidebar_fields [simp]:
  "ss_rag_chain (create_sidebar w) = ss_rag_chain w"
  "ss_messages (create_sidebar w) = ss_messages w"
  "chat_log (create_sidebar w) = chat_log w"
  "prompts_sent (create_sidebar w) = prompts_sent w"
  "ss_rag_chain (on_click c w) = ss_rag_chain w"
  "ss_messages (on_click c w) = ss_messages w"
  "chat_log (on_click c w) = chat_log w"
  "prompts_sent (on_click c w) = prompts_sent w"
  by (simp_all add: create_sidebar_def on_click_def split: option.splits)

lemma render_selected_rag_chain [simp]:
  "ss_rag_chain (render_selected_section b i w) = ss_rag_chain w"
  by (simp add: render_selected_section_def Let_def)

text \<open>
  The first run of \<^verbatim>\<open>main\<close> in a session: the chain it leaves, and the exception that
  escapes it.
\<close>

lemma main_first_run:
  assumes "ss_rag_chain w = None"
  shows "ss_rag_chain (fst (main b src inp w)) =
     (case cached_extract_linkedin_info src of
        Inl e \<Rightarrow> Some None
      | Inr li \<Rightarrow>
          if falsy (pdf_extraction src) \<or> main_vectorstore_raises b src \<noteq> None then Some None
          else Some (cached_create_rag_chain (chain_build_ok b) (main_vectorstore b src)))"
    and "snd (main b src inp w) =
     (case cached_extract_linkedin_info src of
        Inl e \<Rightarrow> Some e
      | Inr li \<Rightarrow> if falsy (pdf_extraction src) then None else main_vectorstore_raises b src)"
  using assms
  by (auto simp: main_def Let_def cached_extract_text_from_pdf_def cached_create_rag_chain_def
      create_rag_chain_def split: sum.splits option.splits)

text \<open>A session without a chain stays without one, and without a generated answer.\<close>

lemma chain_unavailable_selected [simp]:
  "chain_unavailable (w\<lparr>ss_selected_section := s\<rparr>) = chain_unavailable w"
  "chain_unavailable (create_sidebar w) = chain_unavailable w"
  "chain_unavailable (on_click c w) = chain_unavailable w"
  by (simp_all add: chain_unavailable_def assistant_texts_def msgs_def create_sidebar_def
      on_click_def split: option.splits)

lemma init_messages_unavailable:
  "chain_unavailable w \<Longrightarrow> chain_unavailable (init_messages w)"
  by (auto simp: chain_unavailable_def assistant_texts_def msgs_def [of w])

lemma render_ask_unavailable:
  assumes "chain_unavailable w"
  shows "chain_unavailable (render_ask_binay_section b i w)"
proof (cases "i = None \<or> i = Some []")
  case True
  then show ?thesis
    using assms by (simp add: render_ask_no_input init_messages_unavailable)
next
  case False
  then obtain q where q: "i = Some q" "q \<noteq> []" by auto
  have "ss_rag_chain w = None \<or> ss_rag_chain w = Some None"
    using assms by (simp add: chain_unavailable_def)
  then have "render_ask_binay_section b i w =
      append_message Assistant apology (append_message User q (init_messages w))"
    using q by (simp add: render_ask_without_chain)
  then show ?thesis
    using init_messages_unavailable [OF assms]
    by (auto simp: chain_unavailable_def assistant_texts_def)
qed

lemma render_selected_unavailable:
  "chain_unavailable w \<Longrightarrow> chain_unavailable (render_selected_section b i w)"
  by (simp add: render_selected_section_def Let_def render_ask_unavailable)

lemma main_unavailable:
  assumes "main_vectorstore b src = None" and "chain_unavailable w"
  shows "chain_unavailable (fst (main b src inp w)) \<and>
         ss_rag_chain (fst (main b src inp w)) = Some None"
proof (cases "ss_rag_chain w")
  case None
  then have "fst (main b src inp w) =
      (create_sidebar (on_click (nav_click inp) w))\<lparr>ss_rag_chain := Some None\<rparr>"
    using assms(1) by (simp add: main_def Let_def split: sum.splits option.splits)
  moreover have
    "chain_unavailable ((create_sidebar (on_click (nav_click inp) w))\<lparr>ss_rag_chain := Some None\<rparr>)"
    using assms(2) by (simp add: chain_unavailable_def assistant_texts_def msgs_def)
  ultimately show ?thesis by simp
next
  case (Some c)
  then have c: "ss_rag_chain w = Some None"
    using assms(2) by (simp add: chain_unavailable_def)
  then have "fst (main b src inp w) =
      render_selected_section b (chat_input inp) (create_sidebar (on_click (nav_click inp) w))"
    by (simp add: main_def Let_def)
  then show ?thesis
    using assms(2) c by (simp add: render_selected_unavailable)
qed

lemma session_unavailable:
  assumes "main_vectorstore b src = None"
  shows "chain_unavailable w \<Longrightarrow>
         chain_unavailable (session b src inps w) \<and>
         (inps \<noteq> [] \<longrightarrow> ss_rag_chain (session b src inps w) = Some None)"
proof (induction inps arbitrary: w)
  case Nil
  then show ?case by simp
next
  case (Cons inp inps)
  have step: "chain_unavailable (fst (main b src inp w))"
    "ss_rag_chain (fst (main b src inp w)) = Some None"
    using main_unavailable [OF assms Cons.prems] by simp_all
  show ?case
  proof (cases inps)
    case Nil
    then show ?thesis using step by simp
  next
    case (Cons a list)
    then show ?thesis using Cons.IH [OF step(1)] by simp
  qed
qed

lemma fresh_unavailable: "chain_unavailable fresh"
  by (simp add: chain_unavailable_def fresh_def assistant_texts_def msgs_def)

text \<open>
  Claim C2. If the call of \<^verbatim>\<open>create_vectorstore\<close> that \<^verbatim>\<open>main\<close> makes produces no chunk,
  it returns no store; then, in a session that starts fresh, after every sequence of
  user actions the chain in the session is \<^verbatim>\<open>None\<close>, no prompt has been sent to the
  generation model, and every assistant turn of the history is the greeting or the fixed
  apology.
\<close>

theorem empty_corpus_no_answer:
  assumes "main_documents b src = []"
  shows "create_vectorstore (split_text b) (index_build_ok b) (resume_data src)
           (py_of_text (cached_extract_text_from_pdf src))
           (cached_extract_github_info src)
           (linkedin_data_of (cached_extract_linkedin_info src)) = None \<and>
         (inps \<noteq> [] \<longrightarrow> ss_rag_chain (session b src inps fresh) = Some None) \<and>
         prompts_sent (session b src inps fresh) = [] \<and>
         set (assistant_texts (session b src inps fresh)) \<subseteq> {greeting, apology}"
proof -
  have none: "main_vectorstore b src = None"
    using assms by (simp add: main_vectorstore_documents)
  have "chain_unavailable (session b src inps fresh)"
       "inps \<noteq> [] \<longrightarrow> ss_rag_chain (session b src inps fresh) = Some None"
    using session_unavailable [OF none fresh_unavailable, of inps] by simp_all
  then show ?thesis
    using none
    by (simp add: chain_unavailable_def main_vectorstore_def cached_create_vectorstore_def)
qed

lemma resume_only_documents: "main_documents example_backend resume_only_sources = []"
  by (simp add: main_documents_def all_documents_def resume_blocks_swapped scenario_sources_def
      resume_only_sources_def py_of_text_def cached_extract_text_from_pdf_def
      cached_extract_github_info_def cached_extract_linkedin_info_def linkedin_data_of_def
      falsy_def github_documents_def linkedin_documents_def)

lemma resume_only_session:
  "session example_backend resume_only_sources
     [page_load, ask ''Where does Binay work?''] fresh =
   append_message Assistant apology
     (append_message User ''Where does Binay work?''
        (init_messages (fresh\<lparr>ss_selected_section := Some ''Ask Binay'',
                              ss_rag_chain := Some None\<rparr>)))"
proof -
  have none: "main_vectorstore example_backend resume_only_sources = None"
    by (simp add: main_vectorstore_documents resume_only_documents)
  have first: "fst (main example_backend resume_only_sources page_load fresh) =
      fresh\<lparr>ss_selected_section := Some ''Ask Binay'', ss_rag_chain := Some None\<rparr>"
    using none
    by (simp add: main_def Let_def page_load_def on_click_def create_sidebar_def fresh_def
        split: sum.splits option.splits)
  show ?thesis
    by (simp add: first)
       (simp add: main_def Let_def ask_def on_click_def create_sidebar_def
          render_selected_section_def render_ask_without_chain)
qed

theorem empty_corpus_no_answer_witness:
  "main_documents example_backend resume_only_sources = [] \<and>
   ss_rag_chain (session example_backend resume_only_sources
      [page_load, ask ''Where does Binay work?''] fresh) = Some None \<and>
   prompts_sent (session example_backend resume_only_sources
      [page_load, ask ''Where does Binay work?''] fresh) = [] \<and>
   assistant_texts (session example_backend resume_only_sources
      [page_load, ask ''Where does Binay work?''] fresh) = [greeting, apology]"
proof -
  have texts: "assistant_texts (session example_backend resume_only_sources
      [page_load, ask ''Where does Binay work?''] fresh) = [greeting, apology]"
    unfolding resume_only_session by (simp add: assistant_texts_def fresh_def)
  show ?thesis
    using texts resume_only_documents
      empty_corpus_no_answer [OF resume_only_documents,
        of "[page_load, ask ''Where does Binay work?'']"]
    by simp
qed

lemma scenario_extractions:
  "cached_extract_linkedin_info scenario_sources = Inr None"
  "cached_extract_github_info scenario_sources = Some example_github"
  "cached_extract_linkedin_info pdf_missing_sources = Inr None"
  "cached_extract_github_info pdf_missing_sources = Some example_github"
  "cached_extract_linkedin_info github_failing_sources = Inr None"
  "cached_extract_github_info github_failing_sources = None"
  "cached_extract_linkedin_info login_failing_sources = Inl UnboundLocalError"
  "cached_extract_github_info login_failing_sources = Some example_github"
  "cached_extract_linkedin_info linkedin_only_sources = Inr (Some example_linkedin)"
  "cached_extract_github_info linkedin_only_sources = None"
  by (simp_all add: scenario_sources_def pdf_missing_sources_def github_failing_sources_def
      login_failing_sources_def linkedin_only_sources_def cached_extract_linkedin_info_def
      extract_linkedin_info_def cached_extract_github_info_def falsy_def)

lemma scenario_resume_texts:
  "\<not> falsy (pdf_extraction scenario_sources)" "falsy (pdf_extraction pdf_missing_sources)"
  "\<not> falsy (pdf_extraction github_failing_sources)"
  "\<not> falsy (pdf_extraction login_failing_sources)"
  "\<not> falsy (pdf_extraction linkedin_only_sources)"
  by (simp_all add: scenario_sources_def pdf_missing_sources_def github_failing_sources_def
      login_failing_sources_def linkedin_only_sources_def falsy_def)

lemma github_failing_documents: "main_documents example_backend github_failing_sources = []"
proof -
  have inputs:
    "resume_data github_failing_sources = PyDict [(''References'', ''Available on Request'')]"
    "py_of_text (cached_extract_text_from_pdf github_failing_sources)
       = PyStr ''Senior Manager, Group BI Reporting, Commonwealth Bank of Australia''"
    by (simp_all add: github_failing_sources_def scenario_sources_def py_of_text_def
        cached_extract_text_from_pdf_def)
  show ?thesis
    unfolding main_documents_def scenario_extractions inputs
    by (simp add: all_documents_def linkedin_data_of_def github_documents_def
        linkedin_documents_def resume_blocks_swapped)
qed

text \<open>
  Claim C3, as stated, fails in three ways. The resume file cannot be read, the code
  host delivers two documents, and \<^verbatim>\<open>main\<close> leaves the session without a chain. The
  resume text is extracted, the code host fails, the professional network has no
  credentials, and again the session is left without a chain. The resume text is
  extracted, the code host delivers, the login to the professional network raises, and
  \<^verbatim>\<open>UnboundLocalError\<close> escapes \<^verbatim>\<open>main\<close>, which leaves the session without a chain.
\<close>

theorem source_failure_counterexample:
  "cached_extract_text_from_pdf pdf_missing_sources = None \<and>
   length (github_documents (split_text example_backend)
      (cached_extract_github_info pdf_missing_sources)) = 2 \<and>
   ss_rag_chain (fst (main example_backend pdf_missing_sources page_load fresh)) = Some None \<and>
   cached_extract_text_from_pdf github_failing_sources
     = Some ''Senior Manager, Group BI Reporting, Commonwealth Bank of Australia'' \<and>
   cached_extract_github_info github_failing_sources = None \<and>
   ss_rag_chain (fst (main example_backend github_failing_sources page_load fresh)) = Some None \<and>
   cached_extract_github_info login_failing_sources = Some example_github \<and>
   snd (main example_backend login_failing_sources page_load fresh) = Some UnboundLocalError \<and>
   ss_rag_chain (fst (main example_backend login_failing_sources page_load fresh)) = Some None"
proof -
  have start: "ss_rag_chain fresh = None"
    by (simp add: fresh_def)
  have texts: "cached_extract_text_from_pdf pdf_missing_sources = None"
    "cached_extract_text_from_pdf github_failing_sources
       = Some ''Senior Manager, Group BI Reporting, Commonwealth Bank of Australia''"
    by (simp_all add: cached_extract_text_from_pdf_def pdf_missing_sources_def
        github_failing_sources_def scenario_sources_def)
  have two: "length (github_documents (split_text example_backend)
      (cached_extract_github_info pdf_missing_sources)) = 2"
    by (simp add: scenario_extractions github_documents_def example_github_def
        repo_documents_def resume_app_def)
  have no_store: "main_vectorstore example_backend github_failing_sources = None"
    "main_vectorstore_raises example_backend github_failing_sources = None"
    by (simp_all add: main_vectorstore_documents main_vectorstore_raises_documents
        github_failing_documents)
  show ?thesis
    using texts two no_store
    by (simp add: main_first_run [OF start] scenario_extractions scenario_resume_texts
        cached_create_rag_chain_def create_rag_chain_def)
qed

text \<open>
  Claim C3 as amended. A failure of the resume extractor (no text, or an empty one)
  aborts the initialisation: the chain in the session stays \<^verbatim>\<open>None\<close>. When the resume
  text was extracted, the professional-network extractor returns (a profile, or
  \<^verbatim>\<open>None\<close> for missing credentials or for a failure after the login, which it catches)
  and the embedding object can be constructed, a missing code-host or
  professional-network result does not stop \<^verbatim>\<open>main\<close>: no exception escapes it, and the
  chain it puts into the session is the one built on the store that the vector-store
  build returns for what the sources delivered. Every store so built holds every
  extracted document of the code host and of the professional network, and a store and
  a chain are built whenever the two build calls succeed and at least one of the two
  sources delivered data.
\<close>

theorem secondary_source_failure_isolated:
  assumes "ss_rag_chain w = None"
  shows "(falsy (pdf_extraction src) \<longrightarrow> ss_rag_chain (fst (main b src inp w)) = Some None) \<and>
         (\<forall>li. \<not> falsy (pdf_extraction src) \<and> cached_extract_linkedin_info src = Inr li \<and>
               embeddings_ok b \<longrightarrow>
            snd (main b src inp w) = None \<and>
            ss_rag_chain (fst (main b src inp w))
              = Some (cached_create_rag_chain (chain_build_ok b) (main_vectorstore b src)) \<and>
            (\<forall>vs. main_vectorstore b src = Some vs \<longrightarrow>
               set (github_documents (split_text b) (cached_extract_github_info src))
                 \<subseteq> set (collection vs) \<and>
               set (linkedin_documents li) \<subseteq> set (collection vs)) \<and>
            (index_build_ok b \<and> chain_build_ok b \<and>
             (cached_extract_github_info src \<noteq> None \<or> li \<noteq> None) \<longrightarrow>
               (\<exists>vs. ss_rag_chain (fst (main b src inp w))
                        = Some (Some \<lparr>chain_retriever = as_retriever vs 5\<rparr>) \<and>
                     set (github_documents (split_text b) (cached_extract_github_info src))
                       \<subseteq> set (collection vs) \<and>
                     set (linkedin_documents li) \<subseteq> set (collection vs))))"
proof -
  have abort: "ss_rag_chain (fst (main b src inp w)) = Some None" if "falsy (pdf_extraction src)"
    using that by (simp add: main_first_run(1) [OF assms] split: sum.splits)
  have isolated:
    "snd (main b src inp w) = None \<and>
     ss_rag_chain (fst (main b src inp w))
       = Some (cached_create_rag_chain (chain_build_ok b) (main_vectorstore b src)) \<and>
     (\<forall>vs. main_vectorstore b src = Some vs \<longrightarrow>
        set (github_documents (split_text b) (cached_extract_github_info src))
          \<subseteq> set (collection vs) \<and>
        set (linkedin_documents li) \<subseteq> set (collection vs)) \<and>
     (index_build_ok b \<and> chain_build_ok b \<and>
      (cached_extract_github_info src \<noteq> None \<or> li \<noteq> None) \<longrightarrow>
        (\<exists>vs. ss_rag_chain (fst (main b src inp w))
                 = Some (Some \<lparr>chain_retriever = as_retriever vs 5\<rparr>) \<and>
              set (github_documents (split_text b) (cached_extract_github_info src))
                \<subseteq> set (collection vs) \<and>
              set (linkedin_documents li) \<subseteq> set (collection vs)))"
    if extracted: "\<not> falsy (pdf_extraction src)"
      and returned: "cached_extract_linkedin_info src = Inr li"
      and embed: "embeddings_ok b"
    for li
  proof -
    have docs: "set (github_documents (split_text b) (cached_extract_github_info src))
                  \<subseteq> set (main_documents b src)"
               "set (linkedin_documents li) \<subseteq> set (main_documents b src)"
      using returned by (auto simp: main_documents_def all_documents_def linkedin_data_of_def)
    have no_raise: "main_vectorstore_raises b src = None"
      using embed by (simp add: main_vectorstore_raises_documents)
    have quiet: "snd (main b src inp w) = None"
      using extracted returned no_raise by (simp add: main_first_run(2) [OF assms])
    have slot: "ss_rag_chain (fst (main b src inp w))
        = Some (cached_create_rag_chain (chain_build_ok b) (main_vectorstore b src))"
      using extracted returned no_raise by (simp add: main_first_run(1) [OF assms])
    have held: "set (github_documents (split_text b) (cached_extract_github_info src))
                  \<subseteq> set (collection vs) \<and>
                set (linkedin_documents li) \<subseteq> set (collection vs)"
      if "main_vectorstore b src = Some vs" for vs
      using that docs
      by (auto simp: main_vectorstore_documents chroma_from_documents_def split: if_splits)
    have built: "\<exists>vs. ss_rag_chain (fst (main b src inp w))
                 = Some (Some \<lparr>chain_retriever = as_retriever vs 5\<rparr>) \<and>
              set (github_documents (split_text b) (cached_extract_github_info src))
                \<subseteq> set (collection vs) \<and>
              set (linkedin_documents li) \<subseteq> set (collection vs)"
      if ok: "index_build_ok b" "chain_build_ok b"
        and some: "cached_extract_github_info src \<noteq> None \<or> li \<noteq> None"
    proof -
      have "main_documents b src \<noteq> []"
        using some returned
        by (auto simp: main_documents_def all_documents_def github_documents_def
            linkedin_documents_def linkedin_data_of_def split: option.splits)
      then have store: "main_vectorstore b src = Some \<lparr>collection = main_documents b src\<rparr>"
        using ok(1) by (simp add: main_vectorstore_documents chroma_from_documents_def)
      then have "ss_rag_chain (fst (main b src inp w)) =
          Some (Some \<lparr>chain_retriever = as_retriever \<lparr>collection = main_documents b src\<rparr> 5\<rparr>)"
        using slot ok(2) by (simp add: cached_create_rag_chain_def create_rag_chain_def)
      then show ?thesis
        using docs by (intro exI [of _ "\<lparr>collection = main_documents b src\<rparr>"]) simp
    qed
    show ?thesis
      using quiet slot held built by blast
  qed
  show ?thesis
    using abort isolated by blast
qed

theorem secondary_source_failure_isolated_witness:
  "cached_extract_linkedin_info scenario_sources = Inr None \<and>
   cached_extract_github_info scenario_sources = Some example_github \<and>
   snd (main example_backend scenario_sources page_load fresh) = None \<and>
   (\<exists>vs. ss_rag_chain (fst (main example_backend scenario_sources page_load fresh))
            = Some (Some \<lparr>chain_retriever = as_retriever vs 5\<rparr>) \<and>
          set (github_documents window_split (Some example_github)) \<subseteq> set (collection vs)) \<and>
   cached_extract_github_info linkedin_only_sources = None \<and>
   cached_extract_linkedin_info linkedin_only_sources = Inr (Some example_linkedin) \<and>
   snd (main example_backend linkedin_only_sources page_load fresh) = None \<and>
   (\<exists>vs. ss_rag_chain (fst (main example_backend linkedin_only_sources page_load fresh))
            = Some (Some \<lparr>chain_retriever = as_retriever vs 5\<rparr>) \<and>
          set (linkedin_documents (Some example_linkedin)) \<subseteq> set (collection vs)) \<and>
   ss_rag_chain (fst (main example_backend pdf_missing_sources page_load fresh)) = Some None"
proof -
  have start: "ss_rag_chain fresh = None"
    by (simp add: fresh_def)
  have services:
    "embeddings_ok example_backend" "index_build_ok example_backend"
    "chain_build_ok example_backend" "split_text example_backend = window_split"
    by (simp_all add: example_backend_def)
  have code_host_only:
    "snd (main example_backend scenario_sources page_load fresh) = None \<and>
     (\<exists>vs. ss_rag_chain (fst (main example_backend scenario_sources page_load fresh))
              = Some (Some \<lparr>chain_retriever = as_retriever vs 5\<rparr>) \<and>
            set (github_documents window_split (Some example_github)) \<subseteq> set (collection vs))"
  proof -
    have given: "\<not> falsy (pdf_extraction scenario_sources) \<and>
        cached_extract_linkedin_info scenario_sources = Inr None \<and>
        embeddings_ok example_backend"
      by (simp add: services scenario_extractions scenario_resume_texts)
    have builds: "index_build_ok example_backend \<and> chain_build_ok example_backend \<and>
        (cached_extract_github_info scenario_sources \<noteq> None \<or>
         (None :: linkedin_data option) \<noteq> None)"
      by (simp add: services scenario_extractions)
    have quiet: "snd (main example_backend scenario_sources page_load fresh) = None"
      using secondary_source_failure_isolated
        [OF start, of scenario_sources example_backend page_load] given
      by blast
    obtain vs where
      "ss_rag_chain (fst (main example_backend scenario_sources page_load fresh))
         = Some (Some \<lparr>chain_retriever = as_retriever vs 5\<rparr>)"
      "set (github_documents (split_text example_backend)
          (cached_extract_github_info scenario_sources)) \<subseteq> set (collection vs)"
      using secondary_source_failure_isolated
        [OF start, of scenario_sources example_backend page_load] given builds
      by blast
    then show ?thesis
      using quiet by (auto simp: services scenario_extractions)
  qed
  have network_only:
    "snd (main example_backend linkedin_only_sources page_load fresh) = None \<and>
     (\<exists>vs. ss_rag_chain (fst (main example_backend linkedin_only_sources page_load fresh))
              = Some (Some \<lparr>chain_retriever = as_retriever vs 5\<rparr>) \<and>
            set (linkedin_documents (Some example_linkedin)) \<subseteq> set (collection vs))"
  proof -
    have given: "\<not> falsy (pdf_extraction linkedin_only_sources) \<and>
        cached_extract_linkedin_info linkedin_only_sources = Inr (Some example_linkedin) \<and>
        embeddings_ok example_backend"
      by (simp add: services scenario_extractions scenario_resume_texts)
    have builds: "index_build_ok example_backend \<and> chain_build_ok example_backend \<and>
        (cached_extract_github_info linkedin_only_sources \<noteq> None \<or>
         Some example_linkedin \<noteq> None)"
      by (simp add: services)
    have quiet: "snd (main example_backend linkedin_only_sources page_load fresh) = None"
      using secondary_source_failure_isolated
        [OF start, of linkedin_only_sources example_backend page_load] given
      by blast
    obtain vs where
      "ss_rag_chain (fst (main example_backend linkedin_only_sources page_load fresh))
         = Some (Some \<lparr>chain_retriever = as_retriever vs 5\<rparr>)"
      "set (linkedin_documents (Some example_linkedin)) \<subseteq> set (collection vs)"
      using secondary_source_failure_isolated
        [OF start, of linkedin_only_sources example_backend page_load] given builds
      by blast
    then show ?thesis
      using quiet by auto
  qed
  have aborted:
    "ss_rag_chain (fst (main example_backend pdf_missing_sources page_load fresh)) = Some None"
    using secondary_source_failure_isolated
      [OF start, of pdf_missing_sources example_backend page_load] scenario_resume_texts(2)
    by blast
  show ?thesis
    using code_host_only network_only aborted scenario_extractions by simp
qed

end
